theory Spec2Isabelle
  imports Complex_Main "HOL-Library.Sublist"
begin

section \<open>HeatWise: compatibility scoring, moderation, meeting roster, user directory\<close>

text \<open>
  A shallow embedding of the Python modules \<^verbatim>\<open>meetings/geolocation_meetings.py\<close>,
  \<^verbatim>\<open>meetings/virtual_meetings.py\<close>, \<^verbatim>\<open>meetings/speed_dating.py\<close>,
  \<^verbatim>\<open>src/services/moderation.py\<close> and \<^verbatim>\<open>users_data.py\<close>.

  Conventions of the embedding:
  \<^item> A Python number is a \<^typ>\<open>real\<close>. The float operations of \<^verbatim>\<open>calculate_distance\<close> go
    through a \<open>machine\<close>, a parameter that gives the rounding of the basic operations and
    the functions of the C library: there rounding decides whether \<^verbatim>\<open>math.sqrt\<close> faults.
    The quotient of two counts and the weighted sum are left unrounded.
  \<^item> Identifiers of users and meetings are \<^typ>\<open>int\<close>.
  \<^item> A module-level dictionary is a map, passed in and returned by every function that
    reads or writes it. The user directory holds references to dictionary objects, kept
    on a heap, since \<^verbatim>\<open>create_user\<close> writes into the dictionary of its caller.
  \<^item> An exception is a value \<open>Inl e\<close> of a sum type; a normal return is \<open>Inr v\<close>.
  \<^item> \<^verbatim>\<open>print\<close> appends one line to a list of output lines returned by the function.
\<close>

subsection \<open>Python values and exceptions\<close>

datatype error = TypeError | ValueError

text \<open>The values a user-information dictionary can hold.\<close>

datatype pyval = PNone | PBool bool | PInt int | PStr string | PList "pyval list"

type_synonym pydict = "string \<rightharpoonup> pyval"

text \<open>\<^verbatim>\<open>str(n)\<close> for an integer, as an f-string renders it.\<close>

fun str_nat :: "nat \<Rightarrow> string" where
  "str_nat n = (if n < 10 then [char_of (48 + n)] else str_nat (n div 10) @ [char_of (48 + n mod 10)])"

definition str_int :: "int \<Rightarrow> string" where
  "str_int i = (if i < 0 then CHR ''-'' # str_nat (nat (- i)) else str_nat (nat i))"

subsection \<open>geolocation\_meetings.py\<close>

text \<open>
  The objects handed to the functions of this module are duck-typed: every one has
  \<^verbatim>\<open>user_id\<close> and \<^verbatim>\<open>name\<close>; class \<^verbatim>\<open>User\<close> adds \<^verbatim>\<open>latitude\<close> and \<^verbatim>\<open>longitude\<close>;
  \<^verbatim>\<open>get_meeting_compatibility\<close> reads \<^verbatim>\<open>interests\<close> and \<^verbatim>\<open>traits\<close> instead.
\<close>

record ident =
  user_id :: int
  name :: string

record User = ident +
  latitude :: real
  longitude :: real

record Profile = ident +
  interests :: "string list"
  traits :: "string list"

text \<open>
  \<^verbatim>\<open>set(a) & set(b)\<close>, \<^verbatim>\<open>set(a) | set(b)\<close>, \<^verbatim>\<open>not all_interests\<close> and \<^verbatim>\<open>len(...)\<close>.
\<close>

definition compare_interests :: "string list \<Rightarrow> string list \<Rightarrow> real" where
  "compare_interests user1_interests user2_interests =
     (let common_interests = set user1_interests \<inter> set user2_interests;
          all_interests = set user1_interests \<union> set user2_interests
      in if all_interests = {} then 0.5
         else real (card common_interests) / real (card all_interests))"

text \<open>
  The body of \<^verbatim>\<open>compare_psychological_traits\<close> is a docstring only, so every call
  returns \<^verbatim>\<open>None\<close>.
\<close>

definition compare_psychological_traits :: "string list \<Rightarrow> string list \<Rightarrow> real option" where
  "compare_psychological_traits user1_traits user2_traits = None"

text \<open>
  The float arithmetic under \<^verbatim>\<open>calculate_distance\<close>. \<open>rnd\<close> rounds an exact result to
  a double: IEEE 754 rounds \<open>+\<close>, \<open>-\<close>, \<open>*\<close> and \<open>/\<close> correctly, so \<^verbatim>\<open>x - y\<close> is
  \<open>rnd (x - y)\<close>. The functions of the C library behind \<^verbatim>\<open>math.sqrt\<close>, \<^verbatim>\<open>math.sin\<close>,
  \<^verbatim>\<open>math.cos\<close>, \<^verbatim>\<open>math.atan2\<close> and \<^verbatim>\<open>**\<close> are fields of their own, and so is the constant
  \<open>pi / 180\<close> by which \<^verbatim>\<open>math.radians\<close> multiplies. All values are finite.
\<close>

record machine =
  rnd :: "real \<Rightarrow> real"
  fl_sqrt :: "real \<Rightarrow> real"
  fl_sin :: "real \<Rightarrow> real"
  fl_cos :: "real \<Rightarrow> real"
  fl_atan2 :: "real \<Rightarrow> real \<Rightarrow> real"
  fl_pow :: "real \<Rightarrow> real \<Rightarrow> real"
  deg_to_rad :: real

definition radians :: "machine \<Rightarrow> real \<Rightarrow> real" where
  "radians m x = rnd m (x * deg_to_rad m)"

text \<open>\<^verbatim>\<open>math.sqrt\<close> raises \<^verbatim>\<open>ValueError\<close> on a negative argument.\<close>

definition py_sqrt :: "machine \<Rightarrow> real \<Rightarrow> error + real" where
  "py_sqrt m x = (if x < 0 then Inl ValueError else Inr (fl_sqrt m x))"

text \<open>Lines 44 to 46: the quantity \<^verbatim>\<open>a\<close> of the Haversine formula, from the four angles in radians.\<close>

definition haversine_a :: "machine \<Rightarrow> real \<Rightarrow> real \<Rightarrow> real \<Rightarrow> real \<Rightarrow> real" where
  "haversine_a m lat1 lon1 lat2 lon2 =
     (let dlat = rnd m (lat2 - lat1);
          dlon = rnd m (lon2 - lon1)
      in rnd m (fl_pow m (fl_sin m (rnd m (dlat / 2))) 2
                + rnd m (rnd m (fl_cos m lat1 * fl_cos m lat2)
                         * fl_pow m (fl_sin m (rnd m (dlon / 2))) 2)))"

definition calculate_distance :: "machine \<Rightarrow> User \<Rightarrow> User \<Rightarrow> error + real" where
  "calculate_distance m user1 user2 =
     (let R = 6371;
          lat1 = radians m (latitude user1); lon1 = radians m (longitude user1);
          lat2 = radians m (latitude user2); lon2 = radians m (longitude user2);
          a = haversine_a m lat1 lon1 lat2 lon2
      in case py_sqrt m a of
           Inl e \<Rightarrow> Inl e
         | Inr sa \<Rightarrow>
             (case py_sqrt m (rnd m (1 - a)) of
                Inl e \<Rightarrow> Inl e
              | Inr sb \<Rightarrow> Inr (rnd m (R * rnd m (2 * fl_atan2 m sa sb)))))"

text \<open>
  The loop of \<^verbatim>\<open>find_users_within_radius\<close>, with the list built so far as accumulator.
  The distance is computed only when the identifiers differ (\<^verbatim>\<open>and\<close> short-circuits),
  and a fault of \<^verbatim>\<open>calculate_distance\<close> ends the loop.
\<close>

fun find_users_loop :: "machine \<Rightarrow> User \<Rightarrow> User list \<Rightarrow> real \<Rightarrow> User list \<Rightarrow> error + User list" where
  "find_users_loop m target_user [] radius users_within_radius = Inr users_within_radius"
| "find_users_loop m target_user (user # users) radius users_within_radius =
     (if user_id user \<noteq> user_id target_user then
        (case calculate_distance m target_user user of
           Inl e \<Rightarrow> Inl e
         | Inr d \<Rightarrow>
             if d \<le> radius
             then find_users_loop m target_user users radius (users_within_radius @ [user])
             else find_users_loop m target_user users radius users_within_radius)
      else find_users_loop m target_user users radius users_within_radius)"

definition find_users_within_radius :: "machine \<Rightarrow> User \<Rightarrow> User list \<Rightarrow> real \<Rightarrow> error + User list" where
  "find_users_within_radius m target_user users radius = find_users_loop m target_user users radius []"

text \<open>
  Modelled from the spec: \<^verbatim>\<open>get_user_location\<close> is imported from \<^verbatim>\<open>users_data\<close>, which
  does not define it. The geolocation store of the spec has
  \<^verbatim>\<open>get_location(user_id) -> {lat, lon} | absent\<close>, so a location is a pair of a latitude
  and a longitude, and \<^verbatim>\<open>get_user_location\<close> is a lookup in a map from identifiers to
  locations, a parameter of \<open>get_meeting_compatibility\<close> below.
\<close>

record location =
  loc_latitude :: real
  loc_longitude :: real

text \<open>
  Line 103: the weighted sum. \<^verbatim>\<open>traits_score * 0.3\<close> with \<^verbatim>\<open>traits_score = None\<close> raises
  \<^verbatim>\<open>TypeError\<close>. The sum is returned as it is.
\<close>

definition compatibility_rate :: "real \<Rightarrow> real \<Rightarrow> real option \<Rightarrow> error + real" where
  "compatibility_rate proximity_score interests_score traits_score =
     (case traits_score of
        None \<Rightarrow> Inl TypeError
      | Some t \<Rightarrow> Inr ((proximity_score * 0.3) + (interests_score * 0.4) + (t * 0.3)))"

definition get_meeting_compatibility ::
  "machine \<Rightarrow> (int \<rightharpoonup> location) \<Rightarrow> Profile \<Rightarrow> Profile \<Rightarrow> (error + real) \<times> string list" where
  "get_meeting_compatibility m get_user_location user1 user2 =
     (case (get_user_location (user_id user1), get_user_location (user_id user2)) of
        (Some location1, Some location2) \<Rightarrow>
          (case calculate_distance m
                  \<lparr>user_id = user_id user1, name = name user1,
                   latitude = loc_latitude location1, longitude = loc_longitude location1\<rparr>
                  \<lparr>user_id = user_id user2, name = name user2,
                   latitude = loc_latitude location2, longitude = loc_longitude location2\<rparr> of
             Inl e \<Rightarrow> (Inl e, [])
           | Inr distance \<Rightarrow>
               (let proximity_score = (if distance \<le> 10 then 1 else 0.1);
                    interests_score = compare_interests (interests user1) (interests user2);
                    traits_score = compare_psychological_traits (traits user1) (traits user2)
                in (compatibility_rate proximity_score interests_score traits_score, [])))
      | _ \<Rightarrow> (Inr 0, [''Could not retrieve user locations.'']))"

text \<open>The test of line 58 on the distance: the call returns a number, and it is at most the radius.\<close>

definition within_radius :: "machine \<Rightarrow> User \<Rightarrow> User \<Rightarrow> real \<Rightarrow> bool" where
  "within_radius m target_user user radius =
     (case calculate_distance m target_user user of Inl e \<Rightarrow> False | Inr d \<Rightarrow> d \<le> radius)"

subsection \<open>Machines\<close>

text \<open>\<open>atan2\<close> of the reals: the angle of the point \<open>(x, y)\<close>, in \<open>(-\<pi>, \<pi>]\<close>.\<close>

definition atan2 :: "real \<Rightarrow> real \<Rightarrow> real" where
  "atan2 y x =
     (if 0 < x then arctan (y / x)
      else if x < 0 then (if 0 \<le> y then arctan (y / x) + pi else arctan (y / x) - pi)
      else if 0 < y then pi / 2
      else if y < 0 then - pi / 2
      else 0)"

text \<open>The machine that does not round: every operation returns the exact real.\<close>

definition real_arith :: machine where
  "real_arith =
     \<lparr>rnd = (\<lambda>x. x), fl_sqrt = sqrt, fl_sin = sin, fl_cos = cos, fl_atan2 = atan2,
      fl_pow = (\<lambda>x y. if y = 2 then x * x else x powr y), deg_to_rad = pi / 180\<rparr>"

text \<open>
  What IEEE 754 doubles under round-to-nearest and the C library give at the
  arguments that matter for a user compared with itself and for two users swapped:
  rounding keeps 0 and 1 and commutes with negation, the square roots of 0 and 1 are
  exact, the sine is odd and 0 at 0, the square is even and 0 at 0, and
  \<^verbatim>\<open>atan2(0, 1)\<close> is 0.
\<close>

definition ieee_like :: "machine \<Rightarrow> bool" where
  "ieee_like m \<longleftrightarrow>
     rnd m 0 = 0 \<and> rnd m 1 = 1 \<and> (\<forall>x. rnd m (- x) = - rnd m x)
     \<and> fl_sqrt m 0 = 0 \<and> fl_sqrt m 1 = 1
     \<and> fl_sin m 0 = 0 \<and> (\<forall>x. fl_sin m (- x) = - fl_sin m x)
     \<and> fl_pow m 0 2 = 0 \<and> (\<forall>x. fl_pow m (- x) 2 = fl_pow m x 2)
     \<and> fl_atan2 m 0 1 = 0"

text \<open>
  The doubles of one run of \<^verbatim>\<open>calculate_distance\<close>, from the user at latitude 8,
  longitude 0 to the user at latitude -8, longitude 180. Each entry is an operation of
  that run with the double it returns, written as the fraction it is:
  \<^item> \<open>deg_to_rad\<close> is 0.017453292519943295;
  \<^item> \<^verbatim>\<open>radians(180)\<close> rounds to 3.141592653589793;
  \<^item> the sine of \<open>dlat / 2 = -0.13962634015954636\<close> is -0.13917310096006544, and its
    square 0.019369152030840567;
  \<^item> the sine of \<open>dlon / 2 = 1.5707963267948966\<close> is 1.0;
  \<^item> the cosine of 0.13962634015954636 and of its negative is 0.9902680687415704, and
    the product of the two rounds to 0.9806308479691596;
  \<^item> the sum 0.019369152030840567 + 0.9806308479691596 rounds to 1.0000000000000002;
  \<^item> the square root of 1.0000000000000002 is 1.0.
  The other operations of the run are exact. Outside the run the fields are arbitrary.
\<close>

definition double_sample :: machine where
  "double_sample =
     \<lparr>rnd = (\<lambda>x. x)
        (180 * (5030569068109113 / 288230376151711744) := 884279719003555 / 281474976710656,
         (4459770905381437 / 4503599627370496) * (4459770905381437 / 4503599627370496)
           := 8832737443003841 / 9007199254740992,
         1395694493897217 / 72057594037927936 + 8832737443003841 / 9007199254740992
           := 4503599627370497 / 4503599627370496),
      fl_sqrt = (\<lambda>x. 0)(4503599627370497 / 4503599627370496 := 1),
      fl_sin = (\<lambda>x. 0)
        (- (5030569068109113 / 36028797018963968) := - (5014239404989977 / 36028797018963968),
         884279719003555 / 562949953421312 := 1),
      fl_cos = (\<lambda>x. 0)
        (5030569068109113 / 36028797018963968 := 4459770905381437 / 4503599627370496,
         - (5030569068109113 / 36028797018963968) := 4459770905381437 / 4503599627370496),
      fl_atan2 = (\<lambda>y x. 0),
      fl_pow = (\<lambda>x y. x * x)
        (- (5014239404989977 / 36028797018963968) := (\<lambda>y. 1395694493897217 / 72057594037927936)),
      deg_to_rad = 5030569068109113 / 288230376151711744\<rparr>"

subsection \<open>virtual\_meetings.py\<close>

text \<open>\<^verbatim>\<open>meetings\<close>: meeting identifier to the list of participants.\<close>

type_synonym meetings = "int \<rightharpoonup> int list"

definition meeting_not_found :: "int \<Rightarrow> string" where
  "meeting_not_found meeting_id = ''Error: Meeting with ID '' @ str_int meeting_id @ '' not found.''"

definition join_meeting :: "int \<Rightarrow> int \<Rightarrow> meetings \<Rightarrow> meetings \<times> string list" where
  "join_meeting meeting_id uid meetings =
     (case meetings meeting_id of
        Some participants \<Rightarrow> (meetings(meeting_id \<mapsto> participants @ [uid]), [])
      | None \<Rightarrow> (meetings, [meeting_not_found meeting_id]))"

definition end_meeting :: "int \<Rightarrow> meetings \<Rightarrow> meetings \<times> string list" where
  "end_meeting meeting_id meetings =
     (case meetings meeting_id of
        Some participants \<Rightarrow> (meetings(meeting_id := None), [])
      | None \<Rightarrow> (meetings, [meeting_not_found meeting_id]))"

text \<open>
  \<^verbatim>\<open>list.remove\<close> deletes the first occurrence. The outer \<^verbatim>\<open>if\<close> has no \<^verbatim>\<open>else\<close>:
  on an unknown meeting the function returns without printing.
\<close>

definition remove_user_from_meeting :: "int \<Rightarrow> int \<Rightarrow> meetings \<Rightarrow> meetings \<times> string list" where
  "remove_user_from_meeting meeting_id uid meetings =
     (case meetings meeting_id of
        Some participants \<Rightarrow>
          if uid \<in> set participants
          then (meetings(meeting_id \<mapsto> remove1 uid participants), [])
          else (meetings,
                [''Error: User with ID '' @ str_int uid @ '' not found in meeting ''
                 @ str_int meeting_id @ ''.''])
      | None \<Rightarrow> (meetings, []))"

text \<open>
  What a scorer of \<^verbatim>\<open>virtual_meetings\<close> returns when it returns a float: a finite
  number, an infinity, or not-a-number. Comparisons with \<^verbatim>\<open>nan\<close> are false.
\<close>

datatype pyfloat = Num real | PosInf | NegInf | NaN

fun py_add :: "pyfloat \<Rightarrow> pyfloat \<Rightarrow> pyfloat" where
  "py_add (Num a) (Num b) = Num (a + b)"
| "py_add NaN y = NaN"
| "py_add x NaN = NaN"
| "py_add PosInf NegInf = NaN"
| "py_add NegInf PosInf = NaN"
| "py_add PosInf y = PosInf"
| "py_add x PosInf = PosInf"
| "py_add NegInf y = NegInf"
| "py_add x NegInf = NegInf"

fun py_half :: "pyfloat \<Rightarrow> pyfloat" where
  "py_half (Num a) = Num (a / 2)"
| "py_half x = x"

fun py_less :: "pyfloat \<Rightarrow> pyfloat \<Rightarrow> bool" where
  "py_less (Num a) (Num b) = (a < b)"
| "py_less NaN y = False"
| "py_less x NaN = False"
| "py_less NegInf y = (y \<noteq> NegInf)"
| "py_less x PosInf = (x \<noteq> PosInf)"
| "py_less x y = False"

text \<open>
  \<^verbatim>\<open>max(a, b)\<close> and \<^verbatim>\<open>min(a, b)\<close> keep the first argument unless the second is
  strictly greater, respectively smaller.
\<close>

definition py_max :: "pyfloat \<Rightarrow> pyfloat \<Rightarrow> pyfloat" where
  "py_max a b = (if py_less a b then b else a)"

definition py_min :: "pyfloat \<Rightarrow> pyfloat \<Rightarrow> pyfloat" where
  "py_min a b = (if py_less b a then b else a)"

text \<open>
  Lines 92 to 95: the mean of the two scores, then \<^verbatim>\<open>min(max(total, 0), 1)\<close>. Adding
  \<^verbatim>\<open>None\<close> raises \<^verbatim>\<open>TypeError\<close>.
\<close>

definition total_compatibility :: "pyfloat option \<Rightarrow> pyfloat option \<Rightarrow> error + pyfloat" where
  "total_compatibility interests_compatibility traits_compatibility =
     (case (interests_compatibility, traits_compatibility) of
        (Some i, Some t) \<Rightarrow> Inr (py_min (py_max (py_half (py_add i t)) (Num 0)) (Num 1))
      | _ \<Rightarrow> Inl TypeError)"

text \<open>\<^verbatim>\<open>d.get(key, default)\<close>.\<close>

definition dict_get :: "pydict \<Rightarrow> string \<Rightarrow> pyval \<Rightarrow> pyval" where
  "dict_get d key dflt = (case d key of Some v \<Rightarrow> v | None \<Rightarrow> dflt)"

text \<open>
  \<^verbatim>\<open>get_meeting_compatibility\<close> of \<^verbatim>\<open>virtual_meetings\<close>, named \<open>vm_\<close> here since
  \<^verbatim>\<open>geolocation_meetings\<close> has a function of the same name. It imports
  \<^verbatim>\<open>get_user_data\<close>, \<^verbatim>\<open>compare_interests\<close> and \<^verbatim>\<open>compare_psychological_traits\<close> from
  \<^verbatim>\<open>users_data\<close>, which defines none of them, so the three are parameters: the first a
  lookup in the user directory, each of the two scorers any function that returns a
  float or \<^verbatim>\<open>None\<close>. \<^verbatim>\<open>not user1_data\<close> holds of \<^verbatim>\<open>None\<close> and of the empty dictionary.
\<close>

definition vm_get_meeting_compatibility ::
  "(int \<rightharpoonup> pydict) \<Rightarrow> (pyval \<Rightarrow> pyval \<Rightarrow> pyfloat option) \<Rightarrow> (int \<Rightarrow> int \<Rightarrow> pyfloat option)
     \<Rightarrow> int \<Rightarrow> int \<Rightarrow> error + pyfloat" where
  "vm_get_meeting_compatibility get_user_data vm_compare_interests vm_compare_traits user_id1 user_id2 =
     (case (get_user_data user_id1, get_user_data user_id2) of
        (Some user1_data, Some user2_data) \<Rightarrow>
          if user1_data = Map.empty \<or> user2_data = Map.empty then Inr (Num 0.0)
          else
            (let interests_compatibility =
                   vm_compare_interests (dict_get user1_data ''interests'' (PList []))
                                        (dict_get user2_data ''interests'' (PList []));
                 traits_compatibility = vm_compare_traits user_id1 user_id2
             in total_compatibility interests_compatibility traits_compatibility)
      | _ \<Rightarrow> Inr (Num 0.0))"

subsection \<open>speed\_dating.py\<close>

text \<open>
  Line 10 of \<^verbatim>\<open>get_speed_dating_compatibility\<close>: the interest similarity, computed in
  place from the two interest lists.
\<close>

definition speed_dating_interests_compatibility :: "string list \<Rightarrow> string list \<Rightarrow> real" where
  "speed_dating_interests_compatibility interests1 interests2 =
     (if card (set interests1 \<union> set interests2) > 0
      then real (card (set interests1 \<inter> set interests2)) / real (card (set interests1 \<union> set interests2))
      else 0)"

subsection \<open>users\_data.py\<close>

text \<open>
  Dictionaries are objects: \<^verbatim>\<open>user_data\<close> holds, for each identifier, a reference to the
  dictionary it was given, and the caller keeps that reference. \<open>heap\<close> gives the
  dictionary at each reference.
\<close>

type_synonym ref = nat

record directory =
  user_data :: "int \<rightharpoonup> ref"
  heap :: "ref \<Rightarrow> pydict"

text \<open>
  \<^verbatim>\<open>user_data[user_id] = user_info\<close> stores the reference; then
  \<^verbatim>\<open>user_data[user_id]["interests"] = []\<close> writes into the dictionary it points to.
\<close>

definition create_user :: "int \<Rightarrow> ref \<Rightarrow> directory \<Rightarrow> directory \<times> string list" where
  "create_user uid user_info s =
     (if uid \<notin> dom (user_data s)
      then (s\<lparr>user_data := (user_data s)(uid \<mapsto> user_info),
              heap := (heap s)(user_info := (heap s user_info)(''interests'' \<mapsto> PList []))\<rparr>, [])
      else (s, [''Error: User with ID '' @ str_int uid @ '' already exists.'']))"

text \<open>\<^verbatim>\<open>get_user\<close>: the stored dictionary, or \<^verbatim>\<open>None\<close>.\<close>

definition get_user :: "int \<Rightarrow> directory \<Rightarrow> pydict option" where
  "get_user uid s = map_option (heap s) (user_data s uid)"

text \<open>
  \<^verbatim>\<open>blocked_users\<close>, and beside it the history of the calls of \<^verbatim>\<open>block_user\<close>: the
  history is not a variable of the program; it records each invocation, so that the
  number of invocations made by a caller can be stated.
\<close>

record block_store =
  blocked_users :: "int \<rightharpoonup> string"
  block_calls :: "(int \<times> string) list"

definition block_user :: "int \<Rightarrow> string \<Rightarrow> block_store \<Rightarrow> block_store" where
  "block_user uid reason s =
     s\<lparr>blocked_users := (blocked_users s)(uid \<mapsto> reason),
       block_calls := block_calls s @ [(uid, reason)]\<rparr>"

subsection \<open>services/moderation.py\<close>

text \<open>\<^verbatim>\<open>str.lower\<close> on ASCII text: the letters A to Z move to a to z.\<close>

definition lower_char :: "char \<Rightarrow> char" where
  "lower_char c = (let n = (of_char c :: nat) in if 65 \<le> n \<and> n \<le> 90 then char_of (n + 32) else c)"

definition lower :: "string \<Rightarrow> string" where
  "lower text = map lower_char text"

definition bad_words :: "string list" where
  "bad_words = [''badword1'', ''badword2'', ''badword3'']"

text \<open>
  The loop over \<^verbatim>\<open>bad_words\<close>; \<^verbatim>\<open>word in text.lower()\<close> is the test that \<open>word\<close> is a
  contiguous part of the lowered text. The first hit blocks the sender and returns.
\<close>

fun moderate_text_loop :: "string list \<Rightarrow> string \<Rightarrow> int \<Rightarrow> block_store \<Rightarrow> bool \<times> block_store" where
  "moderate_text_loop [] text sender_id s = (True, s)"
| "moderate_text_loop (word # words) text sender_id s =
     (if sublist word (lower text)
      then (False, block_user sender_id ''Inappropriate language used.'' s)
      else moderate_text_loop words text sender_id s)"

definition moderate_text :: "string \<Rightarrow> int \<Rightarrow> int \<Rightarrow> block_store \<Rightarrow> bool \<times> block_store" where
  "moderate_text text sender_id recipient_id s = moderate_text_loop bad_words text sender_id s"

text \<open>The text has a part that, lowered, is a word of the blocklist.\<close>

definition contains_bad_word :: "string \<Rightarrow> bool" where
  "contains_bad_word text = (\<exists>word \<in> set bad_words. \<exists>part. sublist part text \<and> lower part = word)"

text \<open>
  \<^verbatim>\<open>user_flags\<close>: the counter is created at 0 when absent, then incremented, so the
  lookup after the first step always finds it.
\<close>

type_synonym user_flags = "int \<rightharpoonup> int"

definition flag_user :: "int \<Rightarrow> user_flags \<Rightarrow> bool \<times> user_flags" where
  "flag_user uid user_flags =
     (let flags0 = (if uid \<notin> dom user_flags then user_flags(uid \<mapsto> 0) else user_flags);
          flags1 = flags0(uid \<mapsto> the (flags0 uid) + 1)
      in (the (flags1 uid) \<ge> 3, flags1))"

section \<open>Properties\<close>

subsection \<open>Without rounding, the Haversine quantity stays in the unit interval\<close>

lemma sin_half_diff_sq: "(sin ((x - y) / 2))\<^sup>2 = (sin ((y - x) / 2))\<^sup>2" for x y :: real
proof -
  have "(x - y) / 2 = - ((y - x) / 2)" by argo
  then have "sin ((x - y) / 2) = - sin ((y - x) / 2)" by (metis sin_minus)
  then show ?thesis by simp
qed

lemma sin_half_sq: "(sin (x / 2))\<^sup>2 = (1 - cos x) / 2" for x :: real
  using cos_double_sin [of "x / 2"] by simp

lemma cos_half_sq: "(cos (x / 2))\<^sup>2 = (1 + cos x) / 2" for x :: real
  using cos_double_cos [of "x / 2"] by simp

lemma haversine_a_real:
  "haversine_a real_arith lat1 lon1 lat2 lon2 =
     (sin ((lat2 - lat1) / 2))\<^sup>2 + cos lat1 * cos lat2 * (sin ((lon2 - lon1) / 2))\<^sup>2"
  by (simp add: haversine_a_def real_arith_def power2_eq_square Let_def)

text \<open>
  With \<open>s\<close> the squared sine of half the longitude difference, the quantity is the mix
  \<open>(1 - s) * p + s * q\<close> of two squares of a sine and a cosine.
\<close>

lemma haversine_a_real_convex:
  "haversine_a real_arith lat1 lon1 lat2 lon2 =
     (1 - (sin ((lon2 - lon1) / 2))\<^sup>2) * (sin ((lat2 - lat1) / 2))\<^sup>2
     + (sin ((lon2 - lon1) / 2))\<^sup>2 * (cos ((lat2 + lat1) / 2))\<^sup>2"
proof -
  have "(cos ((lat2 + lat1) / 2))\<^sup>2 = (sin ((lat2 - lat1) / 2))\<^sup>2 + cos lat1 * cos lat2"
    by (simp add: sin_half_sq cos_half_sq cos_add cos_diff field_simps)
  then show ?thesis
    unfolding haversine_a_real by (simp add: algebra_simps)
qed

lemma haversine_a_real_bounds:
  "0 \<le> haversine_a real_arith lat1 lon1 lat2 lon2" "haversine_a real_arith lat1 lon1 lat2 lon2 \<le> 1"
proof -
  define s where "s = (sin ((lon2 - lon1) / 2))\<^sup>2"
  define p where "p = (sin ((lat2 - lat1) / 2))\<^sup>2"
  define q where "q = (cos ((lat2 + lat1) / 2))\<^sup>2"
  have s: "0 \<le> s" "s \<le> 1" and p: "0 \<le> p" "p \<le> 1" and q: "0 \<le> q" "q \<le> 1"
    unfolding s_def p_def q_def by (simp_all add: abs_square_le_1)
  have a: "haversine_a real_arith lat1 lon1 lat2 lon2 = (1 - s) * p + s * q"
    unfolding s_def p_def q_def by (rule haversine_a_real_convex)
  show "0 \<le> haversine_a real_arith lat1 lon1 lat2 lon2"
    unfolding a using s p q by simp
  have "(1 - s) * p \<le> (1 - s) * 1" using s p by (intro mult_left_mono) simp_all
  moreover have "s * q \<le> s * 1" using s q by (intro mult_left_mono) simp_all
  ultimately show "haversine_a real_arith lat1 lon1 lat2 lon2 \<le> 1"
    unfolding a by simp
qed

text \<open>So on the machine that does not round, neither square root faults.\<close>

lemma calculate_distance_real_returns: "\<exists>d. calculate_distance real_arith user1 user2 = Inr d"
  using haversine_a_real_bounds
          [of "radians real_arith (latitude user1)" "radians real_arith (longitude user1)"
              "radians real_arith (latitude user2)" "radians real_arith (longitude user2)"]
  by (simp add: calculate_distance_def py_sqrt_def Let_def real_arith_def)

text \<open>On any machine, the only fault of \<^verbatim>\<open>calculate_distance\<close> is that of \<^verbatim>\<open>math.sqrt\<close>.\<close>

lemma calculate_distance_error: "calculate_distance m user1 user2 = Inl e \<Longrightarrow> e = ValueError"
  by (auto simp: calculate_distance_def py_sqrt_def Let_def split: if_splits)

subsection \<open>Distance\<close>


lemma haversine_a_self:
  assumes "ieee_like m"
  shows "haversine_a m lat lon lat lon = 0"
  using assms by (simp add: haversine_a_def ieee_like_def)



subsection \<open>Nearby users\<close>

text \<open>
  What the loop does on any machine: a fault of \<^verbatim>\<open>calculate_distance\<close> on a candidate
  with another identifier than the target's ends the search with that fault; without
  such a candidate the result is the candidates of another identifier within the
  radius, in the order of the list.
\<close>

lemma find_users_loop_outcome:
  "find_users_loop m target_user users radius acc =
     (if \<exists>user \<in> set users. user_id user \<noteq> user_id target_user
                              \<and> calculate_distance m target_user user = Inl ValueError
      then Inl ValueError
      else Inr (acc @ filter (\<lambda>user. user_id user \<noteq> user_id target_user
                                    \<and> within_radius m target_user user radius) users))"
proof (induction users arbitrary: acc)
  case Nil
  show ?case by simp
next
  case (Cons user users)
  show ?case
  proof (cases "calculate_distance m target_user user")
    case (Inl e)
    then have "e = ValueError" by (rule calculate_distance_error)
    with Inl Cons.IH show ?thesis by (auto simp: within_radius_def)
  next
    case (Inr d)
    with Cons.IH show ?thesis by (auto simp: within_radius_def)
  qed
qed

lemma find_users_within_radius_outcome:
  "find_users_within_radius m target_user users radius =
     (if \<exists>user \<in> set users. user_id user \<noteq> user_id target_user
                              \<and> calculate_distance m target_user user = Inl ValueError
      then Inl ValueError
      else Inr (filter (\<lambda>user. user_id user \<noteq> user_id target_user
                             \<and> within_radius m target_user user radius) users))"
  by (simp add: find_users_within_radius_def find_users_loop_outcome)

text \<open>
  On the doubles of the run from (8, 0) to (-8, 180), the Haversine quantity is
  1.0000000000000002, so \<^verbatim>\<open>1 - a\<close> is negative and \<^verbatim>\<open>math.sqrt(1 - a)\<close> raises.
\<close>

lemma antipodal_a:
  "haversine_a double_sample (radians double_sample 8) (radians double_sample 0)
      (radians double_sample (- 8)) (radians double_sample 180)
     = 4503599627370497 / 4503599627370496"
  by (simp add: haversine_a_def radians_def double_sample_def)

lemma antipodal_distance:
  "calculate_distance double_sample
     \<lparr>user_id = 1, name = ''Ada'', latitude = 8, longitude = 0\<rparr>
     \<lparr>user_id = 2, name = ''Bob'', latitude = - 8, longitude = 180\<rparr> = Inl ValueError"
proof -
  have "rnd double_sample (1 - 4503599627370497 / 4503599627370496) < 0"
    by (simp add: double_sample_def)
  then show ?thesis
    by (simp add: calculate_distance_def Let_def antipodal_a py_sqrt_def)
qed

text \<open>
  C5. The claim is that \<^verbatim>\<open>find_users_within_radius\<close> returns, for every target,
  candidate list and radius, the candidates of another identifier within the radius.
  The code does not when \<^verbatim>\<open>calculate_distance\<close> faults on a candidate: for the target at
  latitude 8, longitude 0 and the one candidate at latitude -8, longitude 180, both valid,
  the search raises \<^verbatim>\<open>ValueError\<close> and returns no list.
\<close>

theorem find_users_within_radius_antipodal_fault:
  "find_users_within_radius double_sample
     \<lparr>user_id = 1, name = ''Ada'', latitude = 8, longitude = 0\<rparr>
     [\<lparr>user_id = 2, name = ''Bob'', latitude = - 8, longitude = 180\<rparr>] 100 = Inl ValueError"
  by (simp add: find_users_within_radius_def antipodal_distance)

subsection \<open>Compatibility of two users\<close>

text \<open>
  When both locations resolve, the call faults: with \<^verbatim>\<open>TypeError\<close> once the distance is
  computed, with \<^verbatim>\<open>ValueError\<close> when \<^verbatim>\<open>calculate_distance\<close> faults first.
\<close>

lemma get_meeting_compatibility_resolved:
  "get_user_location (user_id user1) = Some location1 \<Longrightarrow>
   get_user_location (user_id user2) = Some location2 \<Longrightarrow>
   get_meeting_compatibility m get_user_location user1 user2 = (Inl TypeError, [])
   \<or> get_meeting_compatibility m get_user_location user1 user2 = (Inl ValueError, [])"
  by (auto simp: get_meeting_compatibility_def compatibility_rate_def
        compare_psychological_traits_def Let_def split: sum.splits dest: calculate_distance_error)

lemma get_meeting_compatibility_resolved_no_fault:
  "get_user_location (user_id user1) = Some location1 \<Longrightarrow>
   get_user_location (user_id user2) = Some location2 \<Longrightarrow>
   calculate_distance m
      \<lparr>user_id = user_id user1, name = name user1,
       latitude = loc_latitude location1, longitude = loc_longitude location1\<rparr>
      \<lparr>user_id = user_id user2, name = name user2,
       latitude = loc_latitude location2, longitude = loc_longitude location2\<rparr> = Inr d \<Longrightarrow>
   get_meeting_compatibility m get_user_location user1 user2 = (Inl TypeError, [])"
  by (simp add: get_meeting_compatibility_def compatibility_rate_def
        compare_psychological_traits_def Let_def)

lemma get_meeting_compatibility_real_resolved:
  "get_user_location (user_id user1) = Some location1 \<Longrightarrow>
   get_user_location (user_id user2) = Some location2 \<Longrightarrow>
   get_meeting_compatibility real_arith get_user_location user1 user2 = (Inl TypeError, [])"
  using calculate_distance_real_returns get_meeting_compatibility_resolved_no_fault by blast

text \<open>
  C1. The claim is that \<^verbatim>\<open>get_meeting_compatibility\<close>, for two users whose locations
  resolve, counts an unavailable trait comparison as 0 and returns a composed score.
  The code does not: \<^verbatim>\<open>compare_psychological_traits\<close> returns \<^verbatim>\<open>None\<close>, and the
  product \<^verbatim>\<open>traits_score * 0.3\<close> raises \<^verbatim>\<open>TypeError\<close>. Here the call is evaluated for
  two users in Paris, both located, with one shared interest: without rounding it
  raises \<^verbatim>\<open>TypeError\<close>, and on every machine it raises and returns no score.
\<close>

theorem get_meeting_compatibility_traits_fault:
  "get_meeting_compatibility real_arith
     [1 \<mapsto> \<lparr>loc_latitude = 48.85, loc_longitude = 2.35\<rparr>,
      2 \<mapsto> \<lparr>loc_latitude = 48.86, loc_longitude = 2.34\<rparr>]
     \<lparr>user_id = 1, name = ''Ada'', interests = [''music'', ''hiking''], traits = []\<rparr>
     \<lparr>user_id = 2, name = ''Bob'', interests = [''music''], traits = []\<rparr>
   = (Inl TypeError, [])
   \<and> get_meeting_compatibility m
     [1 \<mapsto> \<lparr>loc_latitude = 48.85, loc_longitude = 2.35\<rparr>,
      2 \<mapsto> \<lparr>loc_latitude = 48.86, loc_longitude = 2.34\<rparr>]
     \<lparr>user_id = 1, name = ''Ada'', interests = [''music'', ''hiking''], traits = []\<rparr>
     \<lparr>user_id = 2, name = ''Bob'', interests = [''music''], traits = []\<rparr>
   \<in> {(Inl TypeError, []), (Inl ValueError, [])}"
proof -
  let ?locs = "[1 \<mapsto> \<lparr>loc_latitude = 48.85, loc_longitude = 2.35\<rparr>,
      2 \<mapsto> \<lparr>loc_latitude = (48.86::real), loc_longitude = (2.34::real)\<rparr>]"
  let ?ada = "\<lparr>user_id = 1, name = ''Ada'', interests = [''music'', ''hiking''], traits = []\<rparr>"
  let ?bob = "\<lparr>user_id = 2, name = ''Bob'', interests = [''music''], traits = []\<rparr>"
  have a: "get_meeting_compatibility real_arith ?locs ?ada ?bob = (Inl TypeError, [])"
    by (rule get_meeting_compatibility_real_resolved) simp_all
  have "get_meeting_compatibility m ?locs ?ada ?bob = (Inl TypeError, [])
        \<or> get_meeting_compatibility m ?locs ?ada ?bob = (Inl ValueError, [])"
    by (rule get_meeting_compatibility_resolved) simp_all
  with a show ?thesis by auto
qed

lemma get_meeting_compatibility_outcomes:
  "fst (get_meeting_compatibility m get_user_location user1 user2)
     \<in> {Inl TypeError, Inl ValueError, Inr 0}"
proof (cases "get_user_location (user_id user1)")
  case None
  then show ?thesis by (simp add: get_meeting_compatibility_def)
next
  case l1: (Some location1)
  show ?thesis
  proof (cases "get_user_location (user_id user2)")
    case None
    with l1 show ?thesis by (simp add: get_meeting_compatibility_def)
  next
    case (Some location2)
    from get_meeting_compatibility_resolved [OF l1 Some, of m] show ?thesis by auto
  qed
qed

text \<open>
  C2. The claim is that the composer returns proximity \<open>\<times>\<close> 0.3 + interests \<open>\<times>\<close> 0.4 +
  traits \<open>\<times>\<close> 0.3 clamped to the interval from 0 to 1. The code never returns that sum:
  whatever the users and the locations, \<^verbatim>\<open>get_meeting_compatibility\<close> faults or returns
  the 0 of the unresolved location, since the trait score is always \<^verbatim>\<open>None\<close>. For two
  users at the same coordinates with the same interests it raises \<^verbatim>\<open>TypeError\<close>.
\<close>

theorem get_meeting_compatibility_never_weighted_sum:
  "fst (get_meeting_compatibility m get_user_location user1 user2)
     \<in> {Inl TypeError, Inl ValueError, Inr 0}
   \<and> (ieee_like m \<longrightarrow>
        get_meeting_compatibility m
          [1 \<mapsto> \<lparr>loc_latitude = 48.85, loc_longitude = 2.35\<rparr>,
           2 \<mapsto> \<lparr>loc_latitude = 48.85, loc_longitude = 2.35\<rparr>]
          \<lparr>user_id = 1, name = ''Ada'', interests = [''music'', ''hiking''], traits = []\<rparr>
          \<lparr>user_id = 2, name = ''Eve'', interests = [''music'', ''hiking''], traits = []\<rparr>
        = (Inl TypeError, []))"
proof -
  have "get_meeting_compatibility m
          [1 \<mapsto> \<lparr>loc_latitude = 48.85, loc_longitude = 2.35\<rparr>,
           2 \<mapsto> \<lparr>loc_latitude = 48.85, loc_longitude = 2.35\<rparr>]
          \<lparr>user_id = 1, name = ''Ada'', interests = [''music'', ''hiking''], traits = []\<rparr>
          \<lparr>user_id = 2, name = ''Eve'', interests = [''music'', ''hiking''], traits = []\<rparr>
        = (Inl TypeError, [])" if m: "ieee_like m"
  proof -
    have "calculate_distance m
            \<lparr>user_id = 1, name = ''Ada'', latitude = 48.85, longitude = 2.35\<rparr>
            \<lparr>user_id = 2, name = ''Eve'', latitude = 48.85, longitude = 2.35\<rparr> = Inr 0"
      using m by (simp add: calculate_distance_def Let_def haversine_a_self py_sqrt_def ieee_like_def)
    then show ?thesis
      by (simp add: get_meeting_compatibility_def compatibility_rate_def
            compare_psychological_traits_def Let_def)
  qed
  then show ?thesis using get_meeting_compatibility_outcomes by blast
qed

theorem get_meeting_compatibility_never_weighted_sum_witness:
  "ieee_like real_arith
   \<and> get_meeting_compatibility real_arith
          [1 \<mapsto> \<lparr>loc_latitude = 48.85, loc_longitude = 2.35\<rparr>,
           2 \<mapsto> \<lparr>loc_latitude = 48.85, loc_longitude = 2.35\<rparr>]
          \<lparr>user_id = 1, name = ''Ada'', interests = [''music'', ''hiking''], traits = []\<rparr>
          \<lparr>user_id = 2, name = ''Eve'', interests = [''music'', ''hiking''], traits = []\<rparr>
        = (Inl TypeError, [])"
proof -
  have "ieee_like real_arith" by (simp add: ieee_like_def real_arith_def atan2_def)
  then show ?thesis
    using get_meeting_compatibility_never_weighted_sum [of real_arith] by blast
qed

text \<open>
  C3. When the location of one of the two users does not resolve,
  \<^verbatim>\<open>get_meeting_compatibility\<close> of \<^verbatim>\<open>geolocation_meetings\<close> prints a line and returns 0;
  when the record of one of the two identifiers is missing (or is the empty dictionary),
  \<^verbatim>\<open>get_meeting_compatibility\<close> of \<^verbatim>\<open>virtual_meetings\<close> returns 0, whatever the two
  scorers would do. Neither raises.
\<close>

theorem missing_user_scores_zero:
  "(get_user_location (user_id user1) = None \<or> get_user_location (user_id user2) = None \<longrightarrow>
      get_meeting_compatibility m get_user_location user1 user2
        = (Inr 0, [''Could not retrieve user locations.'']))
   \<and> (get_user_data id1 \<in> {None, Some Map.empty} \<or> get_user_data id2 \<in> {None, Some Map.empty} \<longrightarrow>
      vm_get_meeting_compatibility get_user_data ci ct id1 id2 = Inr (Num 0))"
  by (auto simp: get_meeting_compatibility_def vm_get_meeting_compatibility_def split: option.splits)

theorem missing_user_scores_zero_witness:
  "get_meeting_compatibility real_arith [1 \<mapsto> \<lparr>loc_latitude = 48.85, loc_longitude = 2.35\<rparr>]
     \<lparr>user_id = 1, name = ''Ada'', interests = [''music''], traits = []\<rparr>
     \<lparr>user_id = 2, name = ''Bob'', interests = [''music''], traits = []\<rparr>
     = (Inr 0, [''Could not retrieve user locations.''])
   \<and> vm_get_meeting_compatibility [1 \<mapsto> [''interests'' \<mapsto> PList []]]
        (\<lambda>a b. Some (Num 1)) (\<lambda>a b. Some (Num 1)) 2 1
     = Inr (Num 0)"
  using missing_user_scores_zero
          [of "[1 \<mapsto> \<lparr>loc_latitude = 48.85, loc_longitude = 2.35\<rparr>]"
              "\<lparr>user_id = 1, name = ''Ada'', interests = [''music''], traits = []\<rparr>"
              "\<lparr>user_id = 2, name = ''Bob'', interests = [''music''], traits = []\<rparr>"
              real_arith "[1 \<mapsto> [''interests'' \<mapsto> PList []]]" 2 1
              "\<lambda>a b. Some (Num 1)" "\<lambda>a b. Some (Num 1)"]
  by simp

text \<open>Past the early return, a score that is not a number passes the clamp of line 95.\<close>

lemma total_compatibility_nan: "total_compatibility (Some NaN) (Some (Num 1)) = Inr NaN"
  by (simp add: total_compatibility_def py_min_def py_max_def)

subsection \<open>Interest similarity\<close>

text \<open>
  C4, as claimed, fails in its last sentence: the interest similarity computed in
  \<^verbatim>\<open>get_speed_dating_compatibility\<close> is 0, not 0.5, when both interest lists are empty.
\<close>

theorem speed_dating_empty_default_zero:
  "speed_dating_interests_compatibility [] [] = 0
   \<and> speed_dating_interests_compatibility [] [] \<noteq> 0.5"
  by (simp add: speed_dating_interests_compatibility_def)

text \<open>
  C4, amended. For every two interest lists with sets \<open>A\<close> and \<open>B\<close>,
  \<^verbatim>\<open>compare_interests\<close> returns \<open>|A \<inter> B| / |A \<union> B|\<close> when the union is not empty and 0.5
  when both are empty; so it returns 1 on twice the same non-empty list, and it is
  symmetric. The similarity of \<^verbatim>\<open>get_speed_dating_compatibility\<close> is the same quotient on
  a non-empty union, and 0 when both are empty.
\<close>

theorem interest_similarity_jaccard:
  "compare_interests A B =
     (if set A \<union> set B = {} then 0.5
      else real (card (set A \<inter> set B)) / real (card (set A \<union> set B)))
   \<and> (A \<noteq> [] \<longrightarrow> compare_interests A A = 1)
   \<and> compare_interests A B = compare_interests B A
   \<and> speed_dating_interests_compatibility A B =
     (if set A \<union> set B = {} then 0
      else real (card (set A \<inter> set B)) / real (card (set A \<union> set B)))"
proof -
  have "A \<noteq> [] \<Longrightarrow> card (set A) \<noteq> 0" by (simp add: card_eq_0_iff)
  then show ?thesis
    by (auto simp: compare_interests_def speed_dating_interests_compatibility_def Let_def
          Int_commute Un_commute card_gt_0_iff)
qed

theorem interest_similarity_jaccard_witness:
  "compare_interests [''music'', ''hiking''] [''music''] = 1 / 2
   \<and> compare_interests [''music'', ''hiking''] [''music'', ''hiking''] = 1
   \<and> compare_interests [''music'', ''hiking''] [''music''] = compare_interests [''music''] [''music'', ''hiking'']
   \<and> speed_dating_interests_compatibility [''music'', ''hiking''] [''music''] = 1 / 2
   \<and> compare_interests [] [] = 0.5"
  using interest_similarity_jaccard [of "[''music'', ''hiking'']" "[''music'']"]
        interest_similarity_jaccard [of "[]" "[]"]
  by simp

subsection \<open>Text moderation\<close>

lemma sublist_map_iff:
  "sublist w (map f xs) \<longleftrightarrow> (\<exists>part. sublist part xs \<and> map f part = w)"
proof
  assume "sublist w (map f xs)"
  then show "\<exists>part. sublist part xs \<and> map f part = w"
    using sublist_map_rightE [of w f xs] by auto
next
  assume "\<exists>part. sublist part xs \<and> map f part = w"
  then obtain part ps ss where "xs = ps @ part @ ss" "map f part = w" by (auto simp: sublist_def)
  then have "map f xs = map f ps @ w @ map f ss" by simp
  then show "sublist w (map f xs)" unfolding sublist_def by blast
qed

text \<open>The test the loop makes is the case-insensitive occurrence of a word of the blocklist.\<close>

lemma contains_bad_word_iff:
  "contains_bad_word text \<longleftrightarrow> (\<exists>word \<in> set bad_words. sublist word (lower text))"
  unfolding contains_bad_word_def lower_def by (simp add: sublist_map_iff)

lemma moderate_text_loop_hit:
  "\<exists>word \<in> set ws. sublist word (lower text) \<Longrightarrow>
     moderate_text_loop ws text sender s = (False, block_user sender ''Inappropriate language used.'' s)"
  by (induction ws) auto

lemma moderate_text_loop_clean:
  "\<not> (\<exists>word \<in> set ws. sublist word (lower text)) \<Longrightarrow> moderate_text_loop ws text sender s = (True, s)"
  by (induction ws) auto

text \<open>
  C6. When the text has a part that is a blocklisted word up to the case of its
  letters, \<^verbatim>\<open>moderate_text\<close> returns \<^verbatim>\<open>False\<close>, the sender is blocked, and the history of
  \<^verbatim>\<open>block_user\<close> grows by exactly one call, on the sender. Otherwise it returns
  \<^verbatim>\<open>True\<close> and the store, history included, is the one it started from.
\<close>

theorem moderate_text_blocks_once:
  "(contains_bad_word text \<longrightarrow>
      moderate_text text sender recipient s =
        (False, s\<lparr>blocked_users := (blocked_users s)(sender \<mapsto> ''Inappropriate language used.''),
                  block_calls := block_calls s @ [(sender, ''Inappropriate language used.'')]\<rparr>))
   \<and> (\<not> contains_bad_word text \<longrightarrow> moderate_text text sender recipient s = (True, s))"
  by (simp add: moderate_text_def contains_bad_word_iff moderate_text_loop_hit
        moderate_text_loop_clean block_user_def)

theorem moderate_text_blocks_once_witness:
  "contains_bad_word ''You BadWord2!''
   \<and> moderate_text ''You BadWord2!'' 7 8 \<lparr>blocked_users = Map.empty, block_calls = []\<rparr>
       = (False, \<lparr>blocked_users = [7 \<mapsto> ''Inappropriate language used.''],
                  block_calls = [(7, ''Inappropriate language used.'')]\<rparr>)
   \<and> \<not> contains_bad_word ''hello''
   \<and> moderate_text ''hello'' 7 8 \<lparr>blocked_users = Map.empty, block_calls = []\<rparr>
       = (True, \<lparr>blocked_users = Map.empty, block_calls = []\<rparr>)"
proof -
  have "\<exists>word \<in> set bad_words. sublist word (lower ''You BadWord2!'')" by code_simp
  then have dirty: "contains_bad_word ''You BadWord2!''" by (simp add: contains_bad_word_iff)
  have "\<not> (\<exists>word \<in> set bad_words. sublist word (lower ''hello''))" by code_simp
  then have clean: "\<not> contains_bad_word ''hello''" by (simp add: contains_bad_word_iff)
  show ?thesis
    using dirty clean
      moderate_text_blocks_once [of "''You BadWord2!''" 7 8 "\<lparr>blocked_users = Map.empty, block_calls = []\<rparr>"]
      moderate_text_blocks_once [of "''hello''" 7 8 "\<lparr>blocked_users = Map.empty, block_calls = []\<rparr>"]
    by simp
qed

subsection \<open>Flags\<close>

text \<open>
  C7. From a state where the identifier has no flag (no counter, or a counter at 0),
  three calls of \<^verbatim>\<open>flag_user\<close> on it return \<^verbatim>\<open>False\<close>, \<^verbatim>\<open>False\<close> and \<^verbatim>\<open>True\<close>.
\<close>

theorem flag_user_third_call:
  "user_flags uid = None \<or> user_flags uid = Some 0 \<Longrightarrow>
     (let (r1, flags1) = flag_user uid user_flags;
          (r2, flags2) = flag_user uid flags1;
          (r3, flags3) = flag_user uid flags2
      in \<not> r1 \<and> \<not> r2 \<and> r3)"
  by (auto simp: flag_user_def Let_def dom_def)

theorem flag_user_third_call_witness:
  "(Map.empty :: user_flags) 42 = None
   \<and> (let (r1, flags1) = flag_user 42 Map.empty;
           (r2, flags2) = flag_user 42 flags1;
           (r3, flags3) = flag_user 42 flags2
       in \<not> r1 \<and> \<not> r2 \<and> r3)"
  using flag_user_third_call [of Map.empty 42] by simp

subsection \<open>Meeting roster\<close>

text \<open>
  C8. The claim is that joining, leaving and ending an unknown meeting each report an
  error and leave the roster as it is. Joining and ending do; leaving
  (\<^verbatim>\<open>remove_user_from_meeting\<close>) leaves the roster as it is and reports nothing. Here
  the three are evaluated on meeting 7 of an empty roster.
\<close>

theorem remove_user_unknown_meeting_silent:
  "remove_user_from_meeting 7 5 Map.empty = (Map.empty, [])
   \<and> join_meeting 7 5 Map.empty = (Map.empty, [''Error: Meeting with ID 7 not found.''])
   \<and> end_meeting 7 Map.empty = (Map.empty, [''Error: Meeting with ID 7 not found.''])"
proof -
  have "str_int 7 = ''7''" by code_simp
  then show ?thesis
    by (simp add: remove_user_from_meeting_def join_meeting_def end_meeting_def meeting_not_found_def)
qed

subsection \<open>User directory\<close>

text \<open>
  C10. On an identifier that the directory does not hold, \<^verbatim>\<open>create_user\<close> prints nothing
  and stores under it the given dictionary, in which it sets \<^verbatim>\<open>interests\<close> to the empty
  list: what \<^verbatim>\<open>get_user\<close> then returns is the given information with any interests
  given gone and every other key as given. The other identifiers keep their
  references and every other dictionary is untouched. On an identifier that the
  directory holds, it prints an error line and nothing changes.
\<close>

theorem create_user_spec:
  "(user_data s uid = None \<longrightarrow>
      (\<exists>s'. create_user uid user_info s = (s', [])
         \<and> user_data s' uid = Some user_info
         \<and> get_user uid s' = Some ((heap s user_info)(''interests'' \<mapsto> PList []))
         \<and> (\<forall>other. other \<noteq> uid \<longrightarrow> user_data s' other = user_data s other)
         \<and> (\<forall>r. r \<noteq> user_info \<longrightarrow> heap s' r = heap s r)))
   \<and> (user_data s uid \<noteq> None \<longrightarrow>
      create_user uid user_info s =
        (s, [''Error: User with ID '' @ str_int uid @ '' already exists.'']))"
  by (auto simp: create_user_def get_user_def dom_def)

theorem create_user_spec_witness:
  "get_user 1 (fst (create_user 1 0
       \<lparr>user_data = Map.empty,
        heap = (\<lambda>r. Map.empty)(0 := [''name'' \<mapsto> PStr ''Ada'', ''interests'' \<mapsto> PList [PStr ''chess'']])\<rparr>))
     = Some [''name'' \<mapsto> PStr ''Ada'', ''interests'' \<mapsto> PList []]
   \<and> create_user 1 5
       \<lparr>user_data = [1 \<mapsto> 0],
        heap = (\<lambda>r. Map.empty)(0 := [''name'' \<mapsto> PStr ''Ada'', ''interests'' \<mapsto> PList [PStr ''chess'']])\<rparr>
     = (\<lparr>user_data = [1 \<mapsto> 0],
         heap = (\<lambda>r. Map.empty)(0 := [''name'' \<mapsto> PStr ''Ada'', ''interests'' \<mapsto> PList [PStr ''chess'']])\<rparr>,
        [''Error: User with ID 1 already exists.''])"
proof -
  let ?h = "(\<lambda>r. Map.empty)(0 := [''name'' \<mapsto> PStr ''Ada'', ''interests'' \<mapsto> PList [PStr ''chess'']]) :: ref \<Rightarrow> pydict"
  have s: "str_int 1 = ''1''" by code_simp
  have upd: "[''name'' \<mapsto> PStr ''Ada'', ''interests'' \<mapsto> PList [PStr ''chess''], ''interests'' \<mapsto> PList []]
             = [''name'' \<mapsto> PStr ''Ada'', ''interests'' \<mapsto> PList []]" by simp
  from create_user_spec [of "\<lparr>user_data = Map.empty, heap = ?h\<rparr>" 1 0]
  obtain s' where c: "create_user 1 0 \<lparr>user_data = Map.empty, heap = ?h\<rparr> = (s', [])"
    and g: "get_user 1 s' = Some ((?h 0)(''interests'' \<mapsto> PList []))"
    by auto
  from c g upd have first: "get_user 1 (fst (create_user 1 0 \<lparr>user_data = Map.empty, heap = ?h\<rparr>))
     = Some [''name'' \<mapsto> PStr ''Ada'', ''interests'' \<mapsto> PList []]" by simp
  from create_user_spec [of "\<lparr>user_data = [1 \<mapsto> 0], heap = ?h\<rparr>" 1 5] s
  have second: "create_user 1 5 \<lparr>user_data = [1 \<mapsto> 0], heap = ?h\<rparr>
     = (\<lparr>user_data = [1 \<mapsto> 0], heap = ?h\<rparr>, [''Error: User with ID 1 already exists.''])" by simp
  from first second show ?thesis by simp
qed

text \<open>
  The dictionary is stored by reference: creating a user from the dictionary already
  stored for another user empties the interests of both.
\<close>

lemma create_user_shared_dictionary:
  "get_user 1 (fst (create_user 2 0
       \<lparr>user_data = [1 \<mapsto> 0],
        heap = (\<lambda>r. Map.empty)(0 := [''name'' \<mapsto> PStr ''Ada'', ''interests'' \<mapsto> PList [PStr ''chess'']])\<rparr>))
     = Some [''name'' \<mapsto> PStr ''Ada'', ''interests'' \<mapsto> PList []]"
  by (simp add: create_user_def get_user_def)

end
